theory Spec2Isabelle
  imports Complex_Main "HOL-Library.Word"
begin

section \<open>The experiment of CDoS-6Mbps-adhoc-UDP-building.cc\<close>

text \<open>
  The source file has two functions, \<open>experiment\<close> and \<open>main\<close>. \<open>experiment\<close> derives
  the attributes of one on/off traffic source, one packet sink and one echo client per
  pair of stations, formats the output path and runs the simulator; \<open>main\<close> seeds the
  random generator and calls \<open>experiment\<close> twice. The embedding keeps what the function
  computes and hands to the simulation library: the attribute values, the stations the
  applications are installed on, the path, the stop time. The radio, the building and the
  protocol stack (lines 57 to 116 of the source, apart from the handshake threshold) are
  constants of the library and are left out.
\<close>

subsection \<open>Values of type double\<close>

text \<open>
  A \<open>double\<close> is a finite value, an infinity or a NaN. Finite values are the real numbers
  they denote and arithmetic on them is exact: rounding to 53 bits is not modelled, and
  neither is the sign of a zero (a zero divisor counts as \<open>+0\<close>). Division by zero and
  arithmetic on infinities follow IEEE 754, which is what the source's expressions do
  when a load or a packet length is zero.
\<close>

datatype dbl = Fin real | PInf | NInf | NaN

fun dbl_mul :: "dbl \<Rightarrow> dbl \<Rightarrow> dbl" where
  "dbl_mul NaN y = NaN"
| "dbl_mul x NaN = NaN"
| "dbl_mul (Fin a) (Fin b) = Fin (a * b)"
| "dbl_mul (Fin a) PInf = (if a = 0 then NaN else if 0 < a then PInf else NInf)"
| "dbl_mul (Fin a) NInf = (if a = 0 then NaN else if 0 < a then NInf else PInf)"
| "dbl_mul PInf (Fin b) = (if b = 0 then NaN else if 0 < b then PInf else NInf)"
| "dbl_mul NInf (Fin b) = (if b = 0 then NaN else if 0 < b then NInf else PInf)"
| "dbl_mul PInf PInf = PInf"
| "dbl_mul PInf NInf = NInf"
| "dbl_mul NInf PInf = NInf"
| "dbl_mul NInf NInf = PInf"

fun dbl_div :: "dbl \<Rightarrow> dbl \<Rightarrow> dbl" where
  "dbl_div NaN y = NaN"
| "dbl_div x NaN = NaN"
| "dbl_div (Fin a) (Fin b) =
     (if b \<noteq> 0 then Fin (a / b)
      else if a = 0 then NaN else if 0 < a then PInf else NInf)"
| "dbl_div (Fin a) PInf = Fin 0"
| "dbl_div (Fin a) NInf = Fin 0"
| "dbl_div PInf (Fin b) = (if 0 \<le> b then PInf else NInf)"
| "dbl_div NInf (Fin b) = (if 0 \<le> b then NInf else PInf)"
| "dbl_div PInf PInf = NaN"
| "dbl_div PInf NInf = NaN"
| "dbl_div NInf PInf = NaN"
| "dbl_div NInf NInf = NaN"

fun dbl_add :: "dbl \<Rightarrow> dbl \<Rightarrow> dbl" where
  "dbl_add NaN y = NaN"
| "dbl_add x NaN = NaN"
| "dbl_add (Fin a) (Fin b) = Fin (a + b)"
| "dbl_add (Fin a) PInf = PInf"
| "dbl_add (Fin a) NInf = NInf"
| "dbl_add PInf (Fin b) = PInf"
| "dbl_add NInf (Fin b) = NInf"
| "dbl_add PInf PInf = PInf"
| "dbl_add PInf NInf = NaN"
| "dbl_add NInf PInf = NaN"
| "dbl_add NInf NInf = NInf"

fun dbl_sub :: "dbl \<Rightarrow> dbl \<Rightarrow> dbl" where
  "dbl_sub NaN y = NaN"
| "dbl_sub x NaN = NaN"
| "dbl_sub (Fin a) (Fin b) = Fin (a - b)"
| "dbl_sub (Fin a) PInf = NInf"
| "dbl_sub (Fin a) NInf = PInf"
| "dbl_sub PInf (Fin b) = PInf"
| "dbl_sub NInf (Fin b) = NInf"
| "dbl_sub PInf PInf = NaN"
| "dbl_sub PInf NInf = PInf"
| "dbl_sub NInf PInf = NInf"
| "dbl_sub NInf NInf = NaN"

text \<open>The comparison \<open>==\<close> of two doubles: a NaN equals nothing.\<close>

fun dbl_eq :: "dbl \<Rightarrow> dbl \<Rightarrow> bool" where
  "dbl_eq (Fin a) (Fin b) = (a = b)"
| "dbl_eq PInf PInf = True"
| "dbl_eq NInf NInf = True"
| "dbl_eq x y = False"

text \<open>The comparison \<open><\<close> of two doubles.\<close>

fun dbl_less :: "dbl \<Rightarrow> dbl \<Rightarrow> bool" where
  "dbl_less NaN y = False"
| "dbl_less x NaN = False"
| "dbl_less (Fin a) (Fin b) = (a < b)"
| "dbl_less x PInf = (x \<noteq> PInf)"
| "dbl_less NInf y = (y \<noteq> NInf)"
| "dbl_less x y = False"

subsection \<open>Text produced by the stream and printf conversions\<close>

definition digit_char :: "nat \<Rightarrow> char" where
  "digit_char n = ''0123456789'' ! (n mod 10)"

text \<open>An unsigned integer in decimal (\<open><<\<close> on a \<open>size_t\<close>, \<open>%d\<close> on a promoted \<open>uint16_t\<close>).\<close>

fun show_nat :: "nat \<Rightarrow> string" where
  "show_nat n = (if n < 10 then [digit_char n] else show_nat (n div 10) @ [digit_char n])"

declare show_nat.simps [simp del]

text \<open>
  Rounding to the nearest integer, ties to the even one: what printf does with the digits
  it cuts off, the value of the double being taken exactly.
\<close>

definition round_half_even :: "real \<Rightarrow> int" where
  "round_half_even x =
     (let f = \<lfloor>x\<rfloor>; d = x - of_int f
      in if d < 1 / 2 then f else if 1 / 2 < d then f + 1
         else if even f then f else f + 1)"

text \<open>The conversions \<open>%1.2f\<close> and \<open>%.2f\<close>: two digits after the point.\<close>

definition fmt_f2 :: "dbl \<Rightarrow> string" where
  "fmt_f2 d =
     (case d of
        Fin x \<Rightarrow>
          (let h = nat (round_half_even (\<bar>x\<bar> * 100))
           in (if x < 0 then ''-'' else '''') @ show_nat (h div 100) @ ''.''
              @ [digit_char (h div 10), digit_char h])
      | PInf \<Rightarrow> ''inf''
      | NInf \<Rightarrow> ''-inf''
      | NaN \<Rightarrow> ''nan'')"

text \<open>
  \<open>sprintf\<close> into a \<open>char\<close> array of \<open>n\<close> bytes writes the text and a terminating NUL.
  When they do not fit, the call writes past the end of the array, which is undefined
  behaviour in C++: the result is \<open>None\<close>.
\<close>

definition sprintf_into :: "nat \<Rightarrow> string \<Rightarrow> string option" where
  "sprintf_into n text = (if length text + 1 \<le> n then Some text else None)"

subsection \<open>Step 6 of the source: the traffic sources and sinks\<close>

datatype rv = ConstantRandomVariable dbl | ExponentialRandomVariable dbl

text \<open>The mean of a random variable of either kind.\<close>

fun rv_mean :: "rv \<Rightarrow> dbl" where
  "rv_mean (ConstantRandomVariable c) = c"
| "rv_mean (ExponentialRandomVariable m) = m"

text \<open>
  The attributes that the source sets on an \<open>OnOffHelper\<close>. \<open>StopTime\<close> is \<open>None\<close>
  where the source does not set it.
\<close>

record OnOffHelper =
  Remote :: "string \<times> nat"
  PacketSize :: nat
  OnTime :: rv
  OffTime :: rv
  DataRate :: string
  StartTime :: dbl
  StopTime :: "dbl option"

text \<open>\<open>(double)1/6000000 * PktLength*8\<close>, lines 140 and 151.\<close>

definition pkt_time :: "16 word \<Rightarrow> dbl" where
  "pkt_time PktLength =
     dbl_mul (dbl_mul (dbl_div (Fin 1) (Fin 6000000)) (Fin (real (unat PktLength)))) (Fin 8)"

text \<open>\<open>1/(Load*(1/pkt_time))-pkt_time\<close>, lines 143 and 154.\<close>

definition offtime_mean :: "dbl \<Rightarrow> dbl \<Rightarrow> dbl" where
  "offtime_mean Load pkt = dbl_sub (dbl_div (Fin 1) (dbl_mul Load (dbl_div (Fin 1) pkt))) pkt"

text \<open>
  The test of line 131, \<open>i == (uint16_t)(NumofNode/2-1)\<close>: the subtraction is on
  \<open>int\<close>, the cast wraps to 16 bits.
\<close>

definition is_first :: "16 word \<Rightarrow> nat \<Rightarrow> bool" where
  "is_first NumofNode i = (i = unat (word_of_int (int (unat NumofNode) div 2 - 1) :: 16 word))"

text \<open>The body of the loop of line 123 up to line 158, at index \<open>i\<close>.\<close>

definition onoffhelper :: "16 word \<Rightarrow> dbl \<Rightarrow> dbl \<Rightarrow> 16 word \<Rightarrow> nat \<Rightarrow> OnOffHelper" where
  "onoffhelper NumofNode FirstNodeLoad RestNodeLoad PktLength i =
     (let remote = (''10.0.0.'' @ show_nat (i * 2 + 2), (12345 + i) mod 65536)
      in if is_first NumofNode i then
           if dbl_eq FirstNodeLoad (Fin 1) then
             \<lparr>Remote = remote, PacketSize = unat PktLength,
              OnTime = ConstantRandomVariable (Fin 1),
              OffTime = ConstantRandomVariable (Fin 0),
              DataRate = ''6000000bps'', StartTime = Fin 53, StopTime = Some (Fin 153)\<rparr>
           else if dbl_eq FirstNodeLoad (Fin 0) then
             \<lparr>Remote = remote, PacketSize = unat PktLength,
              OnTime = ConstantRandomVariable (Fin 0),
              OffTime = ConstantRandomVariable (Fin 1),
              DataRate = ''6000000bps'', StartTime = Fin 53, StopTime = Some (Fin 153)\<rparr>
           else
             \<lparr>Remote = remote, PacketSize = unat PktLength,
              OnTime = ConstantRandomVariable (pkt_time PktLength),
              OffTime = ExponentialRandomVariable (offtime_mean FirstNodeLoad (pkt_time PktLength)),
              DataRate = ''6000000bps'', StartTime = Fin 53, StopTime = Some (Fin 153)\<rparr>
         else
           \<lparr>Remote = remote, PacketSize = unat PktLength,
            OnTime = ConstantRandomVariable (pkt_time PktLength),
            OffTime = ExponentialRandomVariable (offtime_mean RestNodeLoad (pkt_time PktLength)),
            DataRate = ''6000000bps'',
            StartTime = dbl_add (Fin (31 / 10)) (dbl_mul (Fin (real i)) (Fin (1 / 100))),
            StopTime = None\<rparr>)"

text \<open>
  One turn of the loop: the source on station \<open>i*2\<close> (line 159) and the sink, listening
  on port \<open>cbrPort+i\<close>, on station \<open>i*2+1\<close> (lines 163 and 164).
\<close>

record flow =
  onoff :: OnOffHelper
  onoff_node :: nat
  sink_port :: nat
  sink_node :: nat

definition flow_at :: "16 word \<Rightarrow> dbl \<Rightarrow> dbl \<Rightarrow> 16 word \<Rightarrow> nat \<Rightarrow> flow" where
  "flow_at NumofNode FirstNodeLoad RestNodeLoad PktLength i =
     \<lparr>onoff = onoffhelper NumofNode FirstNodeLoad RestNodeLoad PktLength i,
      onoff_node = i * 2,
      sink_port = (12345 + i) mod 65536,
      sink_node = i * 2 + 1\<rparr>"

subsection \<open>The echo clients, lines 173 to 187\<close>

record UdpEchoClientHelper =
  echo_Remote :: "string \<times> nat"
  MaxPackets :: nat
  Interval :: dbl
  echo_PacketSize :: nat
  echo_StartTime :: dbl
  echo_node :: nat

text \<open>
  In \<open>Seconds (0.001+i/1000)\<close> the index is a \<open>size_t\<close> and \<open>1000\<close> an \<open>int\<close>, so the
  quotient is the integer one; it is converted to \<open>double\<close> for the sum.
\<close>

definition echoClientHelper :: "nat \<Rightarrow> UdpEchoClientHelper" where
  "echoClientHelper i =
     \<lparr>echo_Remote = (''10.0.0.'' @ show_nat (i * 2 + 2), 9),
      MaxPackets = 1,
      Interval = Fin 100000,
      echo_PacketSize = 10,
      echo_StartTime = dbl_add (Fin (1 / 1000)) (Fin (real (i div 1000))),
      echo_node = i * 2\<rparr>"

subsection \<open>The output path, lines 190 to 199\<close>

text \<open>The text that \<open>sprintf\<close> produces from the format of line 194.\<close>

definition path_text :: "dbl \<Rightarrow> dbl \<Rightarrow> 16 word \<Rightarrow> string" where
  "path_text FirstNodeLoad RestNodeLoad PktLength =
     ''./CDoS-6Mbps-adhoc-UDP-building/u_0='' @ fmt_f2 FirstNodeLoad
       @ ''rho='' @ fmt_f2 RestNodeLoad @ ''T='' @ show_nat (unat PktLength)"

subsection \<open>The function experiment\<close>

text \<open>
  The function is \<open>experiment_fn\<close> here, \<open>experiment\<close> being a keyword of Isabelle.
  What one call hands to the simulation library. \<open>pathname\<close> is the content of the array
  \<open>char pathname [50]\<close> after line 194, \<open>foldername\<close> the argument of the second
  \<open>mkdir\<close>, \<open>filename\<close> the prefix given to \<open>EnableAthstats\<close>; \<open>Stop\<close> is the argument
  of \<open>Simulator::Stop\<close>, after which \<open>Simulator::Run\<close> is called.
\<close>

record scenario =
  RtsCtsThreshold :: nat
  nodes :: nat
  cbrApps :: "flow list"
  pingApps :: "UdpEchoClientHelper list"
  pathname :: "string option"
  foldername :: "string option"
  filename :: "string option"
  Stop :: nat

text \<open>
  The errors that a run could raise, after section 7 of the specification. The code of
  the function raises none: it has no \<open>throw\<close>, \<open>exit\<close>, \<open>abort\<close> or early
  \<open>return\<close>, and it drops the value that each \<open>mkdir\<close> returns (the parameters
  \<open>mkdir_top\<close> and \<open>mkdir_sub\<close>, \<open>0\<close> for a directory that was created and \<open>-1\<close> for a
  failure). The result is therefore on the right of the sum and lists what the statements
  compute, in the order of the source. It does not say that the call returns. Where
  \<open>pathname\<close> is \<open>None\<close>, line 194 has written past the end of the array: the behaviour
  of the program is undefined from there on, and \<open>foldername\<close>, \<open>filename\<close> and \<open>Stop\<close>
  are only what lines 195 to 202 are written to pass. Whether the library accepts an
  attribute value or a path is not decided by the source and is not modelled.
\<close>

datatype error = ConfigurationError | ResourceError

definition experiment_fn ::
  "int \<Rightarrow> int \<Rightarrow> bool \<Rightarrow> 16 word \<Rightarrow> 16 word \<Rightarrow> dbl \<Rightarrow> dbl \<Rightarrow> 16 word \<Rightarrow> error + scenario" where
  "experiment_fn mkdir_top mkdir_sub enableCtsRts NumofNode DurationofSimulation
       FirstNodeLoad RestNodeLoad PktLength =
     (let buf = sprintf_into 50 (path_text FirstNodeLoad RestNodeLoad PktLength)
      in Inr \<lparr>RtsCtsThreshold = (if enableCtsRts then 100 else 10000000),
              nodes = unat NumofNode,
              cbrApps = map (flow_at NumofNode FirstNodeLoad RestNodeLoad PktLength)
                          [0 ..< unat NumofNode div 2],
              pingApps = map echoClientHelper [0 ..< unat NumofNode div 2],
              pathname = buf,
              foldername = buf,
              filename = map_option (\<lambda>p. p @ ''/nodes'') buf,
              Stop = unat DurationofSimulation\<rparr>)"

subsection \<open>The function main\<close>

text \<open>The calls that \<open>main\<close> makes: \<open>RngSeedManager::SetSeed\<close> and \<open>experiment\<close>.\<close>

datatype call =
  is_SetSeed: SetSeed nat
| Experiment bool "16 word" "16 word" dbl dbl "16 word"

text \<open>
  How the program ends: with the value that \<open>main\<close> returns, with an error that a call
  raised, or in undefined behaviour.
\<close>

datatype exit = Exit int | Raised error | UndefinedBehaviour

text \<open>
  Whether a call of \<open>experiment\<close> comes back to \<open>main\<close> (\<open>None\<close>) or ends the program.
  A call that has written past the end of \<open>pathname\<close> ends it in undefined behaviour:
  nothing that \<open>main\<close> does after the call is defined by the language.
\<close>

definition call_ends :: "error + scenario \<Rightarrow> exit option" where
  "call_ends r =
     (case r of
        Inl e \<Rightarrow> Some (Raised e)
      | Inr sc \<Rightarrow> (if pathname sc = None then Some UndefinedBehaviour else None))"

text \<open>
  \<open>main\<close>, lines 209 to 218: the calls it has made when the program ends, in their
  order, and how the program ends. The second call is made when the first one comes back,
  and 0 is returned when the second one does. The parameters are what the \<open>mkdir\<close> calls
  return.
\<close>

definition main :: "int \<Rightarrow> int \<Rightarrow> call list \<times> exit" where
  "main mkdir_top mkdir_sub =
     (let numofnode = 6; durationofsimulation = 203;
          firstnodeload = Fin 1; restnodeload = Fin (14 / 100);
          seed = SetSeed 1;
          run1 = Experiment False numofnode durationofsimulation firstnodeload restnodeload 200;
          run2 = Experiment False numofnode durationofsimulation firstnodeload restnodeload 1500
      in case call_ends (experiment_fn mkdir_top mkdir_sub False numofnode
                           durationofsimulation firstnodeload restnodeload 200) of
           Some x \<Rightarrow> ([seed, run1], x)
         | None \<Rightarrow>
             (case call_ends (experiment_fn mkdir_top mkdir_sub False numofnode
                                durationofsimulation firstnodeload restnodeload 1500) of
                Some x \<Rightarrow> ([seed, run1, run2], x)
              | None \<Rightarrow> ([seed, run1, run2], Exit 0)))"

subsection \<open>When a traffic source is running\<close>

text \<open>
  Modelled from the spec: the simulation engine is a library that the source calls and
  is not part of it. By sections 4.2 and 5 of the specification an application runs
  from its start time to its stop time, when it has one, and the run has a hard stop
  at the time given to \<open>Simulator::Stop\<close>, past which no flow extends.
\<close>

definition active_at :: "scenario \<Rightarrow> OnOffHelper \<Rightarrow> real \<Rightarrow> bool" where
  "active_at sc h t =
     (\<not> dbl_less (Fin t) (StartTime h)
      \<and> (case StopTime h of None \<Rightarrow> True | Some e \<Rightarrow> dbl_less (Fin t) e)
      \<and> t < real (Stop sc))"

subsection \<open>Quantities of the specification\<close>

text \<open>
  The utilization of a source as the specification defines it (section 4.1): the on
  duration over the sum of the on duration and the mean off duration.
\<close>

definition duty_cycle :: "OnOffHelper \<Rightarrow> dbl" where
  "duty_cycle h =
     dbl_div (rv_mean (OnTime h)) (dbl_add (rv_mean (OnTime h)) (rv_mean (OffTime h)))"

text \<open>
  The mean of the off duration in the specification's words,
  \<open>packetTransmitTime * (1 / targetUtilization - 1)\<close>, to be compared with
  \<open>offtime_mean\<close>, which is the expression of the source.
\<close>

definition spec_offtime_mean :: "dbl \<Rightarrow> dbl \<Rightarrow> dbl" where
  "spec_offtime_mean u p = dbl_mul p (dbl_sub (dbl_div (Fin 1) u) (Fin 1))"

section \<open>Properties\<close>

subsection \<open>Auxiliary facts\<close>

lemma pkt_time_Fin: "pkt_time P = Fin (real (unat P) * 8 / 6000000)"
  by (simp add: pkt_time_def del: of_nat_unat)

text \<open>Among the indices of the loop, the test of line 131 holds at the last one only.\<close>

lemma is_first_last:
  assumes "i < unat N div 2"
  shows "is_first N i \<longleftrightarrow> i = unat N div 2 - 1"
proof -
  let ?k = "int (unat N) div 2 - 1"
  have n: "unat N < 65536"
    using unsigned_less [of N, where ?'a = nat] by simp
  have k0: "0 \<le> ?k" using assms by linarith
  have k1: "?k < 65536" using n by linarith
  have "uint (word_of_int ?k :: 16 word) = ?k mod 2 ^ LENGTH(16)"
    by (rule uint_word_of_int)
  also have "\<dots> = ?k" using k0 k1 by simp
  finally have "unat (word_of_int ?k :: 16 word) = nat ?k"
    by (simp only: unat_eq_nat_uint)
  also have "nat ?k = unat N div 2 - 1" by linarith
  finally show ?thesis by (simp add: is_first_def)
qed

lemma experiment_fn_cbrApps:
  "\<exists>sc. experiment_fn mt ms c N D F R P = Inr sc
     \<and> cbrApps sc = map (flow_at N F R P) [0 ..< unat N div 2]
     \<and> pingApps sc = map echoClientHelper [0 ..< unat N div 2]
     \<and> Stop sc = unat D"
  by (simp add: experiment_fn_def Let_def)

text \<open>On a packet time, the expression of the source and the formula of the specification agree.\<close>

lemma pkt_time_nonneg: "0 \<le> real (unat P) * 8 / 6000000"
  by (simp del: of_nat_unat)

lemma offtime_mean_spec_real:
  assumes "0 \<le> p"
  shows "offtime_mean u (Fin p) = spec_offtime_mean u (Fin p)"
  using assms by (cases u) (auto simp: offtime_mean_def spec_offtime_mean_def field_simps)

lemma offtime_mean_spec: "offtime_mean u (pkt_time P) = spec_offtime_mean u (pkt_time P)"
  unfolding pkt_time_Fin using pkt_time_nonneg by (rule offtime_mean_spec_real)

lemma offtime_mean_frac_real:
  assumes "0 < u" "u < 1" "0 \<le> p"
  shows "offtime_mean (Fin u) (Fin p) = Fin (p * (1 / u - 1))"
  using assms by (auto simp: offtime_mean_def field_simps)

lemma offtime_mean_nonzero_real:
  assumes "u \<noteq> 0" "0 \<le> p"
  shows "offtime_mean (Fin u) (Fin p) = Fin (p * (1 / u - 1))"
  using assms by (auto simp: offtime_mean_def field_simps)

lemma offtime_mean_nonzero:
  assumes "u \<noteq> 0"
  shows "offtime_mean (Fin u) (pkt_time P) = Fin (real (unat P) * 8 / 6000000 * (1 / u - 1))"
  unfolding pkt_time_Fin using assms pkt_time_nonneg by (rule offtime_mean_nonzero_real)

lemma offtime_mean_frac:
  assumes "0 < u" "u < 1"
  shows "offtime_mean (Fin u) (pkt_time P) = Fin (real (unat P) * 8 / 6000000 * (1 / u - 1))"
  unfolding pkt_time_Fin using assms pkt_time_nonneg by (rule offtime_mean_frac_real)

text \<open>What a call returns, field by field.\<close>

lemma experiment_fn_total: "\<exists>sc. experiment_fn mt ms c N D F R P = Inr sc"
  by (simp add: experiment_fn_def Let_def)

lemma experiment_fn_fields:
  assumes "experiment_fn mt ms c N D F R P = Inr sc"
  shows "cbrApps sc = map (flow_at N F R P) [0 ..< unat N div 2]"
    and "pingApps sc = map echoClientHelper [0 ..< unat N div 2]"
    and "Stop sc = unat D"
    and "pathname sc = sprintf_into 50 (path_text F R P)"
  using assms by (auto simp: experiment_fn_def Let_def)

lemma experiment_fn_onoff:
  assumes "experiment_fn mt ms c N D F R P = Inr sc" and "i < unat N div 2"
  shows "onoff (cbrApps sc ! i) = onoffhelper N F R P i"
    and "onoff_node (cbrApps sc ! i) = i * 2"
    and "sink_node (cbrApps sc ! i) = i * 2 + 1"
  using assms(2) by (simp_all add: experiment_fn_fields(1) [OF assms(1)] flow_at_def)

text \<open>Decimal text, one digit at a time, and the two paths of the default batch.\<close>

lemma show_nat_lt10: "n < 10 \<Longrightarrow> show_nat n = [digit_char n]"
  by (subst show_nat.simps) simp

lemma show_nat_ge10: "10 \<le> n \<Longrightarrow> show_nat n = show_nat (n div 10) @ [digit_char n]"
  by (subst show_nat.simps) simp

lemmas text_simps = fmt_f2_def round_half_even_def Let_def show_nat_lt10 show_nat_ge10 digit_char_def

lemma path_200:
  "path_text (Fin 1) (Fin (14 / 100)) 200 = ''./CDoS-6Mbps-adhoc-UDP-building/u_0=1.00rho=0.14T=200''"
  by (simp add: path_text_def text_simps)

lemma path_1500:
  "path_text (Fin 1) (Fin (14 / 100)) 1500 = ''./CDoS-6Mbps-adhoc-UDP-building/u_0=1.00rho=0.14T=1500''"
  by (simp add: path_text_def text_simps)

subsection \<open>The calibration of a fractional load\<close>

text \<open>
  Claim C1. A flow whose target utilization \<open>u\<close> is strictly between 0 and 1 (the load
  of the last flow is \<open>FirstNodeLoad\<close>, that of every other flow \<open>RestNodeLoad\<close>) gets
  the constant on duration \<open>PktLength * 8 / 6000000\<close> and an exponential off duration of
  mean \<open>PktLength * 8 / 6000000 * (1 / u - 1)\<close>; for a packet length that is not zero the
  on duration over the sum of the on duration and the mean off duration is then \<open>u\<close>.
  The arithmetic is exact, so the equality holds without a tolerance.
\<close>

theorem C1_fractional_load:
  assumes "i < unat NumofNode div 2"
    and "(if i = unat NumofNode div 2 - 1 then FirstNodeLoad else RestNodeLoad) = Fin u"
    and "0 < u" and "u < 1"
  shows "\<exists>sc. experiment_fn mt ms cts NumofNode D FirstNodeLoad RestNodeLoad PktLength = Inr sc
    \<and> OnTime (onoff (cbrApps sc ! i))
        = ConstantRandomVariable (Fin (real (unat PktLength) * 8 / 6000000))
    \<and> OffTime (onoff (cbrApps sc ! i))
        = ExponentialRandomVariable (Fin (real (unat PktLength) * 8 / 6000000 * (1 / u - 1)))
    \<and> (PktLength \<noteq> 0 \<longrightarrow> duty_cycle (onoff (cbrApps sc ! i)) = Fin u)"
proof -
  obtain sc where sc: "experiment_fn mt ms cts NumofNode D FirstNodeLoad RestNodeLoad PktLength = Inr sc"
    and apps: "cbrApps sc = map (flow_at NumofNode FirstNodeLoad RestNodeLoad PktLength) [0 ..< unat NumofNode div 2]"
    using experiment_fn_cbrApps by blast
  let ?h = "onoff (cbrApps sc ! i)"
  let ?p = "real (unat PktLength) * 8 / 6000000"
  have h: "?h = onoffhelper NumofNode FirstNodeLoad RestNodeLoad PktLength i"
    using assms(1) by (simp add: apps flow_at_def)
  have first: "is_first NumofNode i \<longleftrightarrow> i = unat NumofNode div 2 - 1"
    using assms(1) by (rule is_first_last)
  have ne: "\<not> dbl_eq (Fin u) (Fin 1)" "\<not> dbl_eq (Fin u) (Fin 0)"
    using assms(3,4) by simp_all
  have on: "OnTime ?h = ConstantRandomVariable (Fin ?p)"
    using assms(2) ne
    by (simp add: h onoffhelper_def first pkt_time_Fin del: of_nat_unat split: if_splits)
  have off: "OffTime ?h = ExponentialRandomVariable (Fin (?p * (1 / u - 1)))"
    using assms(2) ne offtime_mean_frac [OF assms(3,4), of PktLength]
    by (simp add: h onoffhelper_def first del: of_nat_unat split: if_splits)
  have duty: "duty_cycle ?h = Fin u" if "PktLength \<noteq> 0"
  proof -
    have "0 < unat PktLength" using that by (simp add: unat_gt_0)
    then have p: "0 < ?p" by (simp del: of_nat_unat)
    have "?p + ?p * (1 / u - 1) = ?p / u" by (simp add: field_simps del: of_nat_unat)
    moreover have "?p / u \<noteq> 0" using p assms(3) by (simp del: of_nat_unat)
    moreover have "?p / (?p / u) = u" using p by (simp del: of_nat_unat)
    ultimately show ?thesis
      unfolding duty_cycle_def on off by (simp del: times_divide_eq_left of_nat_unat)
  qed
  show ?thesis using sc on off duty by blast
qed

theorem C1_fractional_load_witness:
  "\<exists>sc. experiment_fn 0 0 False 6 203 (Fin 1) (Fin (14 / 100)) 1500 = Inr sc
    \<and> OnTime (onoff (cbrApps sc ! 0)) = ConstantRandomVariable (Fin (1 / 500))
    \<and> OffTime (onoff (cbrApps sc ! 0)) = ExponentialRandomVariable (Fin (43 / 3500))
    \<and> duty_cycle (onoff (cbrApps sc ! 0)) = Fin (14 / 100)"
  using C1_fractional_load [of 0 6 "Fin 1" "Fin (14 / 100)" "14 / 100" 0 0 False 203 1500]
  by simp

subsection \<open>The degenerate loads of the attacking flow\<close>

text \<open>
  Claim C2. For the attacking flow, the flow of the last index \<open>NumofNode / 2 - 1\<close>: when
  its load is exactly 1 the on duration is the constant 1 and the off duration the
  constant 0; when its load is exactly 0 the on duration is the constant 0 and the off
  duration the constant 1.
\<close>

theorem C2_attacking_degenerate:
  assumes "2 \<le> unat NumofNode"
  shows "\<exists>sc. experiment_fn mt ms cts NumofNode D FirstNodeLoad RestNodeLoad PktLength = Inr sc
    \<and> (FirstNodeLoad = Fin 1 \<longrightarrow>
          OnTime (onoff (cbrApps sc ! (unat NumofNode div 2 - 1))) = ConstantRandomVariable (Fin 1)
        \<and> OffTime (onoff (cbrApps sc ! (unat NumofNode div 2 - 1))) = ConstantRandomVariable (Fin 0))
    \<and> (FirstNodeLoad = Fin 0 \<longrightarrow>
          OnTime (onoff (cbrApps sc ! (unat NumofNode div 2 - 1))) = ConstantRandomVariable (Fin 0)
        \<and> OffTime (onoff (cbrApps sc ! (unat NumofNode div 2 - 1))) = ConstantRandomVariable (Fin 1))"
proof -
  obtain sc where sc: "experiment_fn mt ms cts NumofNode D FirstNodeLoad RestNodeLoad PktLength = Inr sc"
    using experiment_fn_total by blast
  let ?i = "unat NumofNode div 2 - 1"
  have i: "?i < unat NumofNode div 2" using assms by linarith
  have first: "is_first NumofNode ?i" using is_first_last [OF i] by simp
  have h: "onoff (cbrApps sc ! ?i) = onoffhelper NumofNode FirstNodeLoad RestNodeLoad PktLength ?i"
    using sc i by (rule experiment_fn_onoff)
  have A: "FirstNodeLoad = Fin 1 \<longrightarrow>
      OnTime (onoff (cbrApps sc ! ?i)) = ConstantRandomVariable (Fin 1)
    \<and> OffTime (onoff (cbrApps sc ! ?i)) = ConstantRandomVariable (Fin 0)"
    unfolding h using first by (simp add: onoffhelper_def)
  have B: "FirstNodeLoad = Fin 0 \<longrightarrow>
      OnTime (onoff (cbrApps sc ! ?i)) = ConstantRandomVariable (Fin 0)
    \<and> OffTime (onoff (cbrApps sc ! ?i)) = ConstantRandomVariable (Fin 1)"
    unfolding h using first by (simp add: onoffhelper_def)
  from sc A B show ?thesis by (intro exI [of _ sc] conjI)
qed

theorem C2_attacking_degenerate_witness:
  "\<exists>sc. experiment_fn 0 0 False 6 203 (Fin 1) (Fin (14 / 100)) 200 = Inr sc
    \<and> OnTime (onoff (cbrApps sc ! 2)) = ConstantRandomVariable (Fin 1)
    \<and> OffTime (onoff (cbrApps sc ! 2)) = ConstantRandomVariable (Fin 0)"
  using C2_attacking_degenerate [of 6 0 0 False 203 "Fin 1" "Fin (14 / 100)" 200]
  by simp

subsection \<open>Ordinary flows have no degenerate branch\<close>

text \<open>
  Claim C3. A flow that is not the last one is configured by the generic branch whatever
  its load, exactly 0 and exactly 1 included: the on duration is the constant packet time
  and the off duration is exponential, with the mean
  \<open>packetTransmitTime * (1 / u - 1)\<close> of the specification, never a constant. With the
  load 0 and a packet of 1500 bytes that mean is infinite.
\<close>

theorem C3_ordinary_generic:
  assumes "i < unat NumofNode div 2" and "i \<noteq> unat NumofNode div 2 - 1"
  shows "\<exists>sc. experiment_fn mt ms cts NumofNode D FirstNodeLoad RestNodeLoad PktLength = Inr sc
    \<and> OnTime (onoff (cbrApps sc ! i)) = ConstantRandomVariable (pkt_time PktLength)
    \<and> OffTime (onoff (cbrApps sc ! i))
        = ExponentialRandomVariable (spec_offtime_mean RestNodeLoad (pkt_time PktLength))"
proof -
  obtain sc where sc: "experiment_fn mt ms cts NumofNode D FirstNodeLoad RestNodeLoad PktLength = Inr sc"
    using experiment_fn_total by blast
  have first: "\<not> is_first NumofNode i" using is_first_last [OF assms(1)] assms(2) by simp
  have h: "onoff (cbrApps sc ! i) = onoffhelper NumofNode FirstNodeLoad RestNodeLoad PktLength i"
    using sc assms(1) by (rule experiment_fn_onoff)
  show ?thesis using sc first by (simp add: h onoffhelper_def offtime_mean_spec)
qed

theorem C3_ordinary_generic_witness:
  "\<exists>sc. experiment_fn 0 0 False 6 203 (Fin 1) (Fin 0) 1500 = Inr sc
    \<and> OnTime (onoff (cbrApps sc ! 1)) = ConstantRandomVariable (Fin (1 / 500))
    \<and> OffTime (onoff (cbrApps sc ! 1)) = ExponentialRandomVariable PInf"
  using C3_ordinary_generic [of 1 6 0 0 False 203 "Fin 1" "Fin 0" 1500]
  by (simp add: pkt_time_def spec_offtime_mean_def)

subsection \<open>The start times of the probes\<close>

text \<open>
  Claim C4, evaluated on the first run of \<open>main\<close>. The claim asks for probe start times
  that differ from flow to flow; the three probes of that run all start at 0.001 s,
  since \<open>i/1000\<close> is an integer quotient and is 0 for every index below 1000.
\<close>

theorem C4_probe_starts_equal:
  "echo_StartTime (pingApps (projr (experiment_fn 0 0 False 6 203 (Fin 1) (Fin (14 / 100)) 200)) ! 0)
     = Fin (1 / 1000)
   \<and> echo_StartTime (pingApps (projr (experiment_fn 0 0 False 6 203 (Fin 1) (Fin (14 / 100)) 200)) ! 1)
     = Fin (1 / 1000)
   \<and> echo_StartTime (pingApps (projr (experiment_fn 0 0 False 6 203 (Fin 1) (Fin (14 / 100)) 200)) ! 2)
     = Fin (1 / 1000)
   \<and> length (pingApps (projr (experiment_fn 0 0 False 6 203 (Fin 1) (Fin (14 / 100)) 200))) = 3"
  by (simp add: experiment_fn_def Let_def echoClientHelper_def)

subsection \<open>The output path\<close>

text \<open>
  Claim C9, evaluated on the two runs of \<open>main\<close>. The text that line 194 formats has the
  shape the claim describes, but it is 53 characters long for the packet length 200 and 54
  for 1500: with the terminating NUL it needs 54 and 55 bytes, and the array \<open>pathname\<close>
  has 50. Both calls write past the end of the array.
\<close>

theorem C9_pathname_overflow:
  "path_text (Fin 1) (Fin (14 / 100)) 200
     = ''./CDoS-6Mbps-adhoc-UDP-building/u_0=1.00rho=0.14T=200''
   \<and> length (path_text (Fin 1) (Fin (14 / 100)) 200) + 1 = 54
   \<and> pathname (projr (experiment_fn 0 0 False 6 203 (Fin 1) (Fin (14 / 100)) 200)) = None
   \<and> path_text (Fin 1) (Fin (14 / 100)) 1500
     = ''./CDoS-6Mbps-adhoc-UDP-building/u_0=1.00rho=0.14T=1500''
   \<and> length (path_text (Fin 1) (Fin (14 / 100)) 1500) + 1 = 55
   \<and> pathname (projr (experiment_fn 0 0 False 6 203 (Fin 1) (Fin (14 / 100)) 1500)) = None"
  unfolding experiment_fn_def Let_def sprintf_into_def path_200 path_1500 by simp

subsection \<open>The flows and their stations\<close>

text \<open>
  Claim C6. A run builds \<open>NumofNode / 2\<close> flows. Flow \<open>k\<close> has its source on station
  \<open>2k\<close> and its sink on station \<open>2k + 1\<close>. The last flow, of index
  \<open>NumofNode / 2 - 1\<close>, and only it, is configured from \<open>FirstNodeLoad\<close>, with the two
  constant cases and the window from 53 s to 153 s; every other flow is configured from
  \<open>RestNodeLoad\<close>. This holds for every station count, the even ones included; for 6
  stations the flows 0 and 1 are ordinary and flow 2 is the attacking one.
\<close>

theorem C6_flow_layout:
  "\<exists>sc. experiment_fn mt ms cts NumofNode D FirstNodeLoad RestNodeLoad PktLength = Inr sc
    \<and> length (cbrApps sc) = unat NumofNode div 2
    \<and> (\<forall>k < unat NumofNode div 2.
          onoff_node (cbrApps sc ! k) = 2 * k
        \<and> sink_node (cbrApps sc ! k) = 2 * k + 1
        \<and> (k = unat NumofNode div 2 - 1 \<longrightarrow>
              StartTime (onoff (cbrApps sc ! k)) = Fin 53
            \<and> StopTime (onoff (cbrApps sc ! k)) = Some (Fin 153)
            \<and> (OnTime (onoff (cbrApps sc ! k)), OffTime (onoff (cbrApps sc ! k)))
                = (if dbl_eq FirstNodeLoad (Fin 1)
                   then (ConstantRandomVariable (Fin 1), ConstantRandomVariable (Fin 0))
                   else if dbl_eq FirstNodeLoad (Fin 0)
                   then (ConstantRandomVariable (Fin 0), ConstantRandomVariable (Fin 1))
                   else (ConstantRandomVariable (pkt_time PktLength),
                         ExponentialRandomVariable
                           (offtime_mean FirstNodeLoad (pkt_time PktLength)))))
        \<and> (k \<noteq> unat NumofNode div 2 - 1 \<longrightarrow>
              StartTime (onoff (cbrApps sc ! k)) = Fin (31 / 10 + real k / 100)
            \<and> StopTime (onoff (cbrApps sc ! k)) = None
            \<and> (OnTime (onoff (cbrApps sc ! k)), OffTime (onoff (cbrApps sc ! k)))
                = (ConstantRandomVariable (pkt_time PktLength),
                   ExponentialRandomVariable
                     (offtime_mean RestNodeLoad (pkt_time PktLength)))))"
proof -
  obtain sc where sc: "experiment_fn mt ms cts NumofNode D FirstNodeLoad RestNodeLoad PktLength = Inr sc"
    using experiment_fn_total by blast
  have len: "length (cbrApps sc) = unat NumofNode div 2"
    by (simp add: experiment_fn_fields(1) [OF sc])
  have each: "onoff_node (cbrApps sc ! k) = 2 * k
        \<and> sink_node (cbrApps sc ! k) = 2 * k + 1
        \<and> (k = unat NumofNode div 2 - 1 \<longrightarrow>
              StartTime (onoff (cbrApps sc ! k)) = Fin 53
            \<and> StopTime (onoff (cbrApps sc ! k)) = Some (Fin 153)
            \<and> (OnTime (onoff (cbrApps sc ! k)), OffTime (onoff (cbrApps sc ! k)))
                = (if dbl_eq FirstNodeLoad (Fin 1)
                   then (ConstantRandomVariable (Fin 1), ConstantRandomVariable (Fin 0))
                   else if dbl_eq FirstNodeLoad (Fin 0)
                   then (ConstantRandomVariable (Fin 0), ConstantRandomVariable (Fin 1))
                   else (ConstantRandomVariable (pkt_time PktLength),
                         ExponentialRandomVariable
                           (offtime_mean FirstNodeLoad (pkt_time PktLength)))))
        \<and> (k \<noteq> unat NumofNode div 2 - 1 \<longrightarrow>
              StartTime (onoff (cbrApps sc ! k)) = Fin (31 / 10 + real k / 100)
            \<and> StopTime (onoff (cbrApps sc ! k)) = None
            \<and> (OnTime (onoff (cbrApps sc ! k)), OffTime (onoff (cbrApps sc ! k)))
                = (ConstantRandomVariable (pkt_time PktLength),
                   ExponentialRandomVariable
                     (offtime_mean RestNodeLoad (pkt_time PktLength))))"
    if k: "k < unat NumofNode div 2" for k
  proof -
    note f = experiment_fn_onoff [OF sc k]
    have first: "is_first NumofNode k \<longleftrightarrow> k = unat NumofNode div 2 - 1"
      using k by (rule is_first_last)
    show ?thesis
    proof (cases "k = unat NumofNode div 2 - 1")
      case True
      with first have "is_first NumofNode k" by simp
      with True show ?thesis
        unfolding f by (simp add: onoffhelper_def Let_def)
    next
      case False
      with first have "\<not> is_first NumofNode k" by simp
      with False show ?thesis
        unfolding f by (simp add: onoffhelper_def Let_def)
    qed
  qed
  show ?thesis
    apply (rule exI [of _ sc])
    apply (intro conjI)
      apply (rule sc)
     apply (rule len)
    apply (intro allI impI)
    apply (erule each)
    done
qed

theorem C6_flow_layout_witness:
  "\<exists>sc. experiment_fn 0 0 False 6 203 (Fin 1) (Fin (14 / 100)) 200 = Inr sc
    \<and> length (cbrApps sc) = 3
    \<and> onoff_node (cbrApps sc ! 0) = 0 \<and> sink_node (cbrApps sc ! 0) = 1
    \<and> onoff_node (cbrApps sc ! 1) = 2 \<and> sink_node (cbrApps sc ! 1) = 3
    \<and> onoff_node (cbrApps sc ! 2) = 4 \<and> sink_node (cbrApps sc ! 2) = 5
    \<and> StartTime (onoff (cbrApps sc ! 0)) = Fin (310 / 100)
    \<and> StartTime (onoff (cbrApps sc ! 1)) = Fin (311 / 100)
    \<and> OffTime (onoff (cbrApps sc ! 0))
         = ExponentialRandomVariable (offtime_mean (Fin (14 / 100)) (pkt_time 200))
    \<and> OffTime (onoff (cbrApps sc ! 1))
         = ExponentialRandomVariable (offtime_mean (Fin (14 / 100)) (pkt_time 200))
    \<and> StartTime (onoff (cbrApps sc ! 2)) = Fin 53
    \<and> StopTime (onoff (cbrApps sc ! 2)) = Some (Fin 153)
    \<and> OnTime (onoff (cbrApps sc ! 2)) = ConstantRandomVariable (Fin 1)
    \<and> OffTime (onoff (cbrApps sc ! 2)) = ConstantRandomVariable (Fin 0)"
  using C6_flow_layout [of 0 0 False 6 203 "Fin 1" "Fin (14 / 100)" 200]
  apply (elim exE conjE)
  apply (frule spec [of _ 0])
  apply (frule spec [of _ 1])
  apply (drule spec [of _ 2])
  apply (rule exI)
  apply (rule conjI, assumption)
  apply simp
  done

subsection \<open>The order of the start times\<close>

text \<open>
  Claim C7 as stated fails for a large station count. With 20000 stations there are 10000
  flows; flow 9000 is an ordinary one and starts at 3.1 + 90 = 93.1 s, after the attacking
  flow 9999, which starts at 53 s.
\<close>

theorem C7_counterexample:
  "\<not> dbl_less
      (StartTime (onoff (cbrApps (projr (experiment_fn 0 0 False 20000 203 (Fin 1) (Fin (14 / 100)) 200)) ! 9000)))
      (StartTime (onoff (cbrApps (projr (experiment_fn 0 0 False 20000 203 (Fin 1) (Fin (14 / 100)) 200)) ! 9999)))
   \<and> length (cbrApps (projr (experiment_fn 0 0 False 20000 203 (Fin 1) (Fin (14 / 100)) 200))) = 10000
   \<and> StartTime (onoff (cbrApps (projr (experiment_fn 0 0 False 20000 203 (Fin 1) (Fin (14 / 100)) 200)) ! 9000))
       = Fin (931 / 10)
   \<and> StartTime (onoff (cbrApps (projr (experiment_fn 0 0 False 20000 203 (Fin 1) (Fin (14 / 100)) 200)) ! 9999))
       = Fin 53"
  by (simp add: experiment_fn_def Let_def flow_at_def onoffhelper_def is_first_def)

text \<open>
  Claim C7, amended. The start times of the ordinary flows are strictly increasing in the
  flow index. An ordinary flow starts before the attacking flow exactly when its index is
  below 4990; so every ordinary flow does when there are at most 9983 stations.
\<close>

theorem C7_start_order:
  "\<exists>sc. experiment_fn mt ms cts NumofNode D FirstNodeLoad RestNodeLoad PktLength = Inr sc
    \<and> (\<forall>i j. i < j \<and> j < unat NumofNode div 2 - 1 \<longrightarrow>
          dbl_less (StartTime (onoff (cbrApps sc ! i))) (StartTime (onoff (cbrApps sc ! j))))
    \<and> (\<forall>i. i < unat NumofNode div 2 - 1 \<longrightarrow>
          (dbl_less (StartTime (onoff (cbrApps sc ! i)))
                    (StartTime (onoff (cbrApps sc ! (unat NumofNode div 2 - 1))))
           \<longleftrightarrow> i < 4990))
    \<and> (unat NumofNode \<le> 9983 \<longrightarrow>
         (\<forall>i. i < unat NumofNode div 2 - 1 \<longrightarrow>
            dbl_less (StartTime (onoff (cbrApps sc ! i)))
                     (StartTime (onoff (cbrApps sc ! (unat NumofNode div 2 - 1))))))"
proof -
  obtain sc where sc: "experiment_fn mt ms cts NumofNode D FirstNodeLoad RestNodeLoad PktLength = Inr sc"
    using experiment_fn_total by blast
  let ?n = "unat NumofNode div 2"
  let ?start = "\<lambda>k. StartTime (onoff (cbrApps sc ! k))"
  have ord: "?start k = Fin (31 / 10 + real k / 100)" if "k < ?n - 1" for k
  proof -
    have k: "k < ?n" using that by linarith
    have "\<not> is_first NumofNode k" using is_first_last [OF k] that by simp
    then show ?thesis
      unfolding experiment_fn_onoff(1) [OF sc k] by (simp add: onoffhelper_def Let_def)
  qed
  have att: "?start (?n - 1) = Fin 53" if "0 < ?n - 1"
  proof -
    have k: "?n - 1 < ?n" using that by linarith
    have "is_first NumofNode (?n - 1)" using is_first_last [OF k] by simp
    then show ?thesis
      unfolding experiment_fn_onoff(1) [OF sc k] by (simp add: onoffhelper_def Let_def)
  qed
  have mono: "dbl_less (?start i) (?start j)" if "i < j \<and> j < ?n - 1" for i j
  proof -
    have "i < ?n - 1" using that by linarith
    then show ?thesis using that by (simp add: ord)
  qed
  have before: "dbl_less (?start i) (?start (?n - 1)) \<longleftrightarrow> i < 4990" if "i < ?n - 1" for i
  proof -
    have "0 < ?n - 1" using that by linarith
    then have "?start (?n - 1) = Fin 53" by (rule att)
    moreover have "(31 / 10 + real i / 100 < 53) \<longleftrightarrow> i < 4990" by auto
    ultimately show ?thesis using that by (simp only: ord dbl_less.simps)
  qed
  have small: "dbl_less (?start i) (?start (?n - 1))" if "unat NumofNode \<le> 9983" "i < ?n - 1" for i
  proof -
    have "i < 4990" using that by linarith
    then show ?thesis using before [OF that(2)] by simp
  qed
  show ?thesis
    apply (rule exI [of _ sc])
    apply (intro conjI allI impI)
       apply (rule sc)
      apply (erule mono)
     apply (erule before)
    apply (erule (1) small)
    done
qed

theorem C7_start_order_witness:
  "\<exists>sc. experiment_fn 0 0 False 6 203 (Fin 1) (Fin (14 / 100)) 200 = Inr sc
    \<and> dbl_less (StartTime (onoff (cbrApps sc ! 0))) (StartTime (onoff (cbrApps sc ! 1)))
    \<and> dbl_less (StartTime (onoff (cbrApps sc ! 0))) (StartTime (onoff (cbrApps sc ! 2)))
    \<and> dbl_less (StartTime (onoff (cbrApps sc ! 1))) (StartTime (onoff (cbrApps sc ! 2)))"
proof -
  from C7_start_order [of 0 0 False 6 203 "Fin 1" "Fin (14 / 100)" 200]
  obtain sc where sc: "experiment_fn 0 0 False 6 203 (Fin 1) (Fin (14 / 100)) 200 = Inr sc"
    and mono: "\<forall>i j. i < j \<and> j < unat (6 :: 16 word) div 2 - 1 \<longrightarrow>
          dbl_less (StartTime (onoff (cbrApps sc ! i))) (StartTime (onoff (cbrApps sc ! j)))"
    and small: "unat (6 :: 16 word) \<le> 9983 \<longrightarrow>
         (\<forall>i. i < unat (6 :: 16 word) div 2 - 1 \<longrightarrow>
            dbl_less (StartTime (onoff (cbrApps sc ! i)))
                     (StartTime (onoff (cbrApps sc ! (unat (6 :: 16 word) div 2 - 1)))))"
    by blast
  have "dbl_less (StartTime (onoff (cbrApps sc ! 0))) (StartTime (onoff (cbrApps sc ! 1)))"
    using mono [rule_format, of 0 1] by simp
  moreover have "dbl_less (StartTime (onoff (cbrApps sc ! 0))) (StartTime (onoff (cbrApps sc ! 2)))"
    using small [rule_format, of 0] by simp
  moreover have "dbl_less (StartTime (onoff (cbrApps sc ! 1))) (StartTime (onoff (cbrApps sc ! 2)))"
    using small [rule_format, of 1] by simp
  ultimately show ?thesis using sc by blast
qed

subsection \<open>No load is rejected\<close>

text \<open>
  Claim C5 as stated fails. With the ordinary load 2, outside the range from 0 to 1, the
  code raises no error where it configures the flows: the three flows are built, and the
  ordinary ones get the on duration 0.002 and an exponential off duration of mean
  \<open>-0.001\<close>. (The write past \<open>pathname\<close> of claim C9 comes after that, at line 194, and
  is there for every load.)
\<close>

theorem C5_counterexample:
  "\<not> isl (experiment_fn 0 0 False 6 203 (Fin 1) (Fin 2) 1500)
   \<and> length (cbrApps (projr (experiment_fn 0 0 False 6 203 (Fin 1) (Fin 2) 1500))) = 3
   \<and> OnTime (onoff (cbrApps (projr (experiment_fn 0 0 False 6 203 (Fin 1) (Fin 2) 1500)) ! 0))
       = ConstantRandomVariable (Fin (1 / 500))
   \<and> OffTime (onoff (cbrApps (projr (experiment_fn 0 0 False 6 203 (Fin 1) (Fin 2) 1500)) ! 0))
       = ExponentialRandomVariable (Fin (- 1 / 1000))
   \<and> OffTime (onoff (cbrApps (projr (experiment_fn 0 0 False 6 203 (Fin 1) (Fin 2) 1500)) ! 1))
       = ExponentialRandomVariable (Fin (- 1 / 1000))"
  by (simp add: experiment_fn_def Let_def flow_at_def onoffhelper_def is_first_def
        offtime_mean_def pkt_time_def)

text \<open>
  Claim C5, amended. A load outside the range from 0 to 1 is not rejected: the code
  configures the flow from it by the rules it has for any other value. For a finite load
  \<open>u\<close> below 0 or above 1 the flow gets the constant on duration
  \<open>PktLength * 8 / 6000000\<close> and an exponential off duration of mean
  \<open>PktLength * 8 / 6000000 * (1 / u - 1)\<close>, which is negative when the packet length is
  not zero. Nothing is said here about a failure to create the output directory, nor about
  what the run does from line 194 on.
\<close>

theorem C5_out_of_range_load:
  assumes "i < unat NumofNode div 2"
    and "(if i = unat NumofNode div 2 - 1 then FirstNodeLoad else RestNodeLoad) = Fin u"
    and "u < 0 \<or> 1 < u"
  shows "\<exists>sc. experiment_fn mt ms cts NumofNode D FirstNodeLoad RestNodeLoad PktLength = Inr sc
    \<and> OnTime (onoff (cbrApps sc ! i))
        = ConstantRandomVariable (Fin (real (unat PktLength) * 8 / 6000000))
    \<and> OffTime (onoff (cbrApps sc ! i))
        = ExponentialRandomVariable (Fin (real (unat PktLength) * 8 / 6000000 * (1 / u - 1)))
    \<and> (PktLength \<noteq> 0 \<longrightarrow> real (unat PktLength) * 8 / 6000000 * (1 / u - 1) < 0)"
proof -
  obtain sc where sc: "experiment_fn mt ms cts NumofNode D FirstNodeLoad RestNodeLoad PktLength = Inr sc"
    using experiment_fn_total by blast
  let ?h = "onoff (cbrApps sc ! i)"
  let ?p = "real (unat PktLength) * 8 / 6000000"
  have h: "?h = onoffhelper NumofNode FirstNodeLoad RestNodeLoad PktLength i"
    using sc assms(1) by (rule experiment_fn_onoff)
  have first: "is_first NumofNode i \<longleftrightarrow> i = unat NumofNode div 2 - 1"
    using assms(1) by (rule is_first_last)
  have u0: "u \<noteq> 0" using assms(3) by auto
  have ne: "\<not> dbl_eq (Fin u) (Fin 1)" "\<not> dbl_eq (Fin u) (Fin 0)"
    using assms(3) by auto
  have on: "OnTime ?h = ConstantRandomVariable (Fin ?p)"
    using assms(2) ne
    by (simp add: h onoffhelper_def first pkt_time_Fin del: of_nat_unat split: if_splits)
  have off: "OffTime ?h = ExponentialRandomVariable (Fin (?p * (1 / u - 1)))"
    using assms(2) ne offtime_mean_nonzero [OF u0, of PktLength]
    by (simp add: h onoffhelper_def first del: of_nat_unat split: if_splits)
  have neg: "?p * (1 / u - 1) < 0" if "PktLength \<noteq> 0"
  proof -
    have "0 < unat PktLength" using that by (simp add: unat_gt_0)
    then have p: "0 < ?p" by (simp del: of_nat_unat)
    have "1 / u - 1 < 0" using assms(3) by (auto simp: field_simps)
    with p show ?thesis by (rule mult_pos_neg)
  qed
  from sc on off neg show ?thesis by (intro exI [of _ sc] conjI impI)
qed

theorem C5_out_of_range_load_witness:
  "\<exists>sc. experiment_fn 0 0 False 6 203 (Fin 1) (Fin 2) 1500 = Inr sc
    \<and> OnTime (onoff (cbrApps sc ! 0)) = ConstantRandomVariable (Fin (1 / 500))
    \<and> OffTime (onoff (cbrApps sc ! 0)) = ExponentialRandomVariable (Fin (- 1 / 1000))"
  using C5_out_of_range_load [of 0 6 "Fin 1" "Fin 2" 2 0 0 False 203 1500]
  by simp

subsection \<open>The batch of main\<close>

text \<open>
  Claim C8, evaluated. \<open>main\<close> sets the seed to 1, once and before anything else, and
  calls \<open>experiment\<close> with the packet length 200 and the other arguments that the claim
  gives. That call writes past the end of \<open>pathname\<close> at line 194, as claim C9 shows, and
  the program is in undefined behaviour from there on: the call with the packet length
  1500 and the return of 0, which the claim states, are not reached.
\<close>

theorem C8_main_first_call_overflow:
  "main mkdir_top mkdir_sub
     = ([SetSeed 1, Experiment False 6 203 (Fin 1) (Fin (14 / 100)) 200], UndefinedBehaviour)"
  unfolding main_def Let_def call_ends_def experiment_fn_def sprintf_into_def path_200
  by simp

subsection \<open>The window of the attacking flow\<close>

text \<open>
  Claim C10. The attacking flow starts at 53 s and stops at 153 s whatever the duration
  of the run. With the hard stop of the engine at \<open>DurationofSimulation\<close>, the flow is
  running exactly from 53 s to 153 s when the duration exceeds 153; it is cut at the end
  of the run when the duration is above 53 and at most 153; and it never runs when the
  duration is at most 53.
\<close>

theorem C10_attack_window:
  assumes "2 \<le> unat NumofNode"
  shows "\<exists>sc a. experiment_fn mt ms cts NumofNode D FirstNodeLoad RestNodeLoad PktLength = Inr sc
    \<and> a = onoff (cbrApps sc ! (unat NumofNode div 2 - 1))
    \<and> StartTime a = Fin 53 \<and> StopTime a = Some (Fin 153) \<and> Stop sc = unat D
    \<and> (\<forall>t. active_at sc a t \<longleftrightarrow> 53 \<le> t \<and> t < 153 \<and> t < real (unat D))
    \<and> (153 < unat D \<longrightarrow> (\<forall>t. active_at sc a t \<longleftrightarrow> 53 \<le> t \<and> t < 153))
    \<and> (53 < unat D \<and> unat D \<le> 153 \<longrightarrow>
          (\<forall>t. active_at sc a t \<longleftrightarrow> 53 \<le> t \<and> t < real (unat D)))
    \<and> (unat D \<le> 53 \<longrightarrow> (\<forall>t. \<not> active_at sc a t))"
proof -
  obtain sc where sc: "experiment_fn mt ms cts NumofNode D FirstNodeLoad RestNodeLoad PktLength = Inr sc"
    using experiment_fn_total by blast
  let ?n = "unat NumofNode div 2"
  define a where "a = onoff (cbrApps sc ! (?n - 1))"
  have k: "?n - 1 < ?n" using assms by linarith
  have first: "is_first NumofNode (?n - 1)" using is_first_last [OF k] by simp
  have a: "a = onoffhelper NumofNode FirstNodeLoad RestNodeLoad PktLength (?n - 1)"
    unfolding a_def by (rule experiment_fn_onoff(1) [OF sc k])
  have start: "StartTime a = Fin 53" and stop: "StopTime a = Some (Fin 153)"
    unfolding a using first by (simp_all add: onoffhelper_def Let_def)
  have run: "Stop sc = unat D" by (rule experiment_fn_fields(3) [OF sc])
  have act: "active_at sc a t \<longleftrightarrow> 53 \<le> t \<and> t < 153 \<and> t < real (unat D)" for t
    by (auto simp add: active_at_def start stop run simp del: of_nat_unat)
  have c1: "active_at sc a t \<longleftrightarrow> 53 \<le> t \<and> t < 153" if "153 < unat D" for t
  proof -
    have "153 < real (unat D)" using that by (simp del: of_nat_unat)
    then show ?thesis unfolding act by auto
  qed
  have c2: "active_at sc a t \<longleftrightarrow> 53 \<le> t \<and> t < real (unat D)"
    if "53 < unat D \<and> unat D \<le> 153" for t
  proof -
    have "real (unat D) \<le> 153" using that by (simp del: of_nat_unat)
    then show ?thesis unfolding act by auto
  qed
  have c3: "\<not> active_at sc a t" if "unat D \<le> 53" for t
  proof -
    have "real (unat D) \<le> 53" using that by (simp del: of_nat_unat)
    then show ?thesis unfolding act by auto
  qed
  show ?thesis
    apply (rule exI [of _ sc])
    apply (rule exI [of _ a])
    apply (intro conjI allI impI)
            apply (rule sc)
           apply (rule a_def)
          apply (rule start)
         apply (rule stop)
        apply (rule run)
       apply (rule act)
      apply (erule c1)
     apply (erule c2)
    apply (erule c3)
    done
qed

theorem C10_attack_window_witness:
  "\<exists>sc a. experiment_fn 0 0 False 6 100 (Fin 1) (Fin (14 / 100)) 200 = Inr sc
    \<and> a = onoff (cbrApps sc ! 2)
    \<and> StartTime a = Fin 53 \<and> StopTime a = Some (Fin 153) \<and> Stop sc = 100
    \<and> active_at sc a 99 \<and> \<not> active_at sc a 101"
proof -
  have h: "2 \<le> unat (6 :: 16 word)" by simp
  from C10_attack_window [OF h, of 0 0 False 100 "Fin 1" "Fin (14 / 100)" 200]
  obtain sc a where sc: "experiment_fn 0 0 False 6 100 (Fin 1) (Fin (14 / 100)) 200 = Inr sc"
    and a: "a = onoff (cbrApps sc ! (unat (6 :: 16 word) div 2 - 1))"
    and times: "StartTime a = Fin 53" "StopTime a = Some (Fin 153)"
    and run: "Stop sc = unat (100 :: 16 word)"
    and act: "\<forall>t. active_at sc a t \<longleftrightarrow> 53 \<le> t \<and> t < 153 \<and> t < real (unat (100 :: 16 word))"
    by blast
  have "active_at sc a 99" and "\<not> active_at sc a 101"
    using act by simp_all
  with sc a times run show ?thesis
    by (intro exI [of _ sc] exI [of _ a]) simp
qed

end
